theory Spec2Isabelle
  imports Main "HOL-Library.Sublist"
begin

section \<open>JavaScript values, errors and the query client\<close>

text \<open>
  The module is TypeScript. A thrown \<open>Error\<close> is a value carrying its message; every
  function that can throw returns a sum, \<open>Inl\<close> the error.
\<close>

datatype error = Error string

text \<open>
  The values found in the cells of a result row. A number cell \<open>JNum n\<close> stands for
  an integer in JavaScript's safe range (magnitude below \<open>2^53\<close>), which JavaScript
  prints digit for digit; fractional and larger numbers are outside this development.
\<close>

datatype jsval = JUndefined | JNull | JBool bool | JNum int | JStr string

text \<open>A row object: its own enumerable properties, in enumeration order.\<close>

type_synonym row = "(string \<times> jsval) list"

abbreviation nl :: string where
  "nl \<equiv> [CHR 0x0A]"

fun show_nat :: "nat \<Rightarrow> string" where
  "show_nat n =
     (if n < 10 then [''0123456789'' ! n]
      else show_nat (n div 10) @ [''0123456789'' ! (n mod 10)])"

declare show_nat.simps [simp del]

definition show_int :: "int \<Rightarrow> string" where
  "show_int i = (if i < 0 then ''-'' @ show_nat (nat (- i)) else show_nat (nat i))"

text \<open>The conversion a template literal \<open>`${v}`\<close> applies to a value.\<close>

fun js_to_string :: "jsval \<Rightarrow> string" where
  "js_to_string JUndefined = ''undefined''"
| "js_to_string JNull = ''null''"
| "js_to_string (JBool b) = (if b then ''true'' else ''false'')"
| "js_to_string (JNum n) = show_int n"
| "js_to_string (JStr s) = s"

text \<open>\<open>`${s}`\<close> for an optional string property: an absent one prints as \<open>undefined\<close>.\<close>

definition template_opt :: "string option \<Rightarrow> string" where
  "template_opt v = (case v of None \<Rightarrow> ''undefined'' | Some s \<Rightarrow> s)"

subsection \<open>The arguments of \<open>JSON.stringify\<close>\<close>

text \<open>
  \<open>JSON.stringify\<close> belongs to the JavaScript runtime, not to this module. \<open>run\<close>
  applies it to the array of rows the client answered with, or to its first row; the
  serializer itself is a parameter of \<open>run\<close> below, a function from these arguments
  to text.
\<close>

datatype json_input = JRows "row list" | JRow row

subsection \<open>The query client and the observable world\<close>

text \<open>
  \<open>AthenaQueryClient\<close> is an external library. Its \<open>query(sql)\<close> either throws or
  answers with an array of row objects, and may answer the same text differently each
  time: a client is a transition on its own state \<open>'s\<close>. The world also records every
  query text handed to the client and everything written with \<open>console.log\<close>.
\<close>

type_synonym 's client = "string \<Rightarrow> 's \<Rightarrow> (error + row list) \<times> 's"

record 's world =
  remote :: 's
  issued :: "string list"
  console :: "error list"

definition query :: "'s client \<Rightarrow> string \<Rightarrow> 's world \<Rightarrow> (error + row list) \<times> 's world" where
  "query c sql w =
     (case c sql (remote w) of
        (r, s') \<Rightarrow> (r, w\<lparr>remote := s', issued := issued w @ [sql]\<rparr>))"

definition console_log :: "error \<Rightarrow> 's world \<Rightarrow> 's world" where
  "console_log e w = w\<lparr>console := console w @ [e]\<rparr>"

section \<open>athena-sql-utils\<close>

record RawResultTableAndColumn =
  table_name :: string
  column_name :: string
  data_type :: "string option"
  is_nullable :: "string option"

record SqlColumn =
  columnName :: string
  dataType :: "string option"
  isNullable :: "bool option"

record SqlTable =
  tableName :: string
  columns :: "SqlColumn list"

subsection \<open>verifyListTablesExistInDatabase\<close>

fun verify_loop :: "string list \<Rightarrow> string list \<Rightarrow> string \<Rightarrow> error + unit" where
  "verify_loop onlyTableNames [] errorPrefixMsg = Inr ()"
| "verify_loop onlyTableNames (tname # rest) errorPrefixMsg =
     (if tname \<notin> set onlyTableNames
      then Inl (Error (errorPrefixMsg @ '' the table '' @ tname @
                       '' was not found in the database''))
      else verify_loop onlyTableNames rest errorPrefixMsg)"

definition verifyListTablesExistInDatabase ::
  "SqlTable list \<Rightarrow> string list \<Rightarrow> string \<Rightarrow> error + unit" where
  "verifyListTablesExistInDatabase tablesFromDatabase listTables errorPrefixMsg =
     (let onlyTableNames = map tableName tablesFromDatabase
      in if length listTables > 0
         then verify_loop onlyTableNames listTables errorPrefixMsg
         else Inr ())"

definition verifyIncludeTablesExistInDatabase :: "SqlTable list \<Rightarrow> string list \<Rightarrow> error + unit" where
  "verifyIncludeTablesExistInDatabase tablesFromDatabase includeTables =
     verifyListTablesExistInDatabase tablesFromDatabase includeTables
       ''Include tables not found in database:''"

definition verifyIgnoreTablesExistInDatabase :: "SqlTable list \<Rightarrow> string list \<Rightarrow> error + unit" where
  "verifyIgnoreTablesExistInDatabase tablesFromDatabase ignoreTables_arg =
     verifyListTablesExistInDatabase tablesFromDatabase ignoreTables_arg
       ''Ignore tables not found in database:''"

subsection \<open>formatToSqlTable\<close>

text \<open>
  \<open>is_nullable\<close> is compared with \<open>===\<close> against the string \<open>YES\<close>; an absent
  property (\<open>None\<close>) is not equal to it.
\<close>

definition sqlColumn_of :: "RawResultTableAndColumn \<Rightarrow> SqlColumn" where
  "sqlColumn_of oneResult =
     \<lparr>columnName = column_name oneResult,
      dataType = data_type oneResult,
      isNullable = Some (is_nullable oneResult = Some ''YES'')\<rparr>"

text \<open>
  \<open>currentTable.columns.push(sqlColumn)\<close> on the table \<open>find\<close> returned: the first
  table of the array with that name is updated in place.
\<close>

fun push_column :: "string \<Rightarrow> SqlColumn \<Rightarrow> SqlTable list \<Rightarrow> SqlTable list" where
  "push_column tname c [] = []"
| "push_column tname c (t # ts) =
     (if tableName t = tname then t\<lparr>columns := columns t @ [c]\<rparr> # ts
      else t # push_column tname c ts)"

definition formatToSqlTable_step ::
  "SqlTable list \<Rightarrow> RawResultTableAndColumn \<Rightarrow> SqlTable list" where
  "formatToSqlTable_step sqlTable oneResult =
     (let sqlColumn = sqlColumn_of oneResult
      in case find (\<lambda>oneTable. tableName oneTable = table_name oneResult) sqlTable of
           Some currentTable \<Rightarrow> push_column (table_name oneResult) sqlColumn sqlTable
         | None \<Rightarrow>
             sqlTable @ [\<lparr>tableName = table_name oneResult, columns = [sqlColumn]\<rparr>])"

fun formatToSqlTable_loop ::
  "RawResultTableAndColumn list \<Rightarrow> SqlTable list \<Rightarrow> SqlTable list" where
  "formatToSqlTable_loop [] sqlTable = sqlTable"
| "formatToSqlTable_loop (oneResult # rest) sqlTable =
     formatToSqlTable_loop rest (formatToSqlTable_step sqlTable oneResult)"

definition formatToSqlTable :: "RawResultTableAndColumn list \<Rightarrow> SqlTable list" where
  "formatToSqlTable rawResultsTableAndColumn =
     formatToSqlTable_loop rawResultsTableAndColumn []"

subsection \<open>formatSqlResponseToSimpleTableString\<close>

text \<open>
  The argument is \<open>null\<close> (\<open>None\<close>) when no query was made, else the array the client
  answered with. Each row is the fold of its values from the empty string, every value
  preceded by a space, and ends with a line break.
\<close>

definition row_line :: "row \<Rightarrow> string" where
  "row_line oneRow =
     foldl (\<lambda>completeString columnValue. completeString @ '' '' @ js_to_string columnValue)
       '''' (map snd oneRow) @ nl"

definition formatSqlResponseToSimpleTableString :: "row list option \<Rightarrow> string" where
  "formatSqlResponseToSimpleTableString rawResult =
     (case rawResult of
        None \<Rightarrow> ''''
      | Some rows \<Rightarrow>
          if length rows = 0 then ''''
          else foldl (\<lambda>globalString oneRow. globalString @ row_line oneRow) '''' rows)"

subsection \<open>generateTableInfoFromTables\<close>

definition tableCustomDescription_of :: "(string \<rightharpoonup> string) option \<Rightarrow> SqlTable \<Rightarrow> string" where
  "tableCustomDescription_of descr currentTable =
     (case descr of
        None \<Rightarrow> ''''
      | Some d \<Rightarrow>
          (case d (tableName currentTable) of
             Some txt \<Rightarrow> txt @ nl
           | None \<Rightarrow> ''''))"

text \<open>The loop over \<open>currentTable.columns.entries()\<close>: \<open>key\<close> is the column's index.\<close>

fun create_columns :: "nat \<Rightarrow> SqlColumn list \<Rightarrow> string \<Rightarrow> string" where
  "create_columns key [] sqlCreateTableQuery = sqlCreateTableQuery"
| "create_columns key (currentColumn # rest) sqlCreateTableQuery =
     create_columns (Suc key) rest
       ((if key > 0 then sqlCreateTableQuery @ '', '' else sqlCreateTableQuery) @
        columnName currentColumn @ '' '' @ template_opt (dataType currentColumn) @ '' '' @
        (if isNullable currentColumn = Some True then '''' else ''NOT NULL''))"

definition sqlCreateTableQuery_of :: "SqlTable \<Rightarrow> string" where
  "sqlCreateTableQuery_of currentTable =
     create_columns 0 (columns currentTable)
       (''CREATE TABLE '' @ tableName currentTable @ '' ('' @ nl) @ '') '' @ nl"

text \<open>
  The sample row count is an integer in JavaScript's safe range, which the template
  literal prints in plain decimal.
\<close>

definition sqlSelectInfoQuery_of :: "SqlTable \<Rightarrow> int \<Rightarrow> string" where
  "sqlSelectInfoQuery_of currentTable nbSampleRow =
     ''SELECT * FROM '' @ tableName currentTable @ '' LIMIT '' @ show_int nbSampleRow @ '';'' @ nl"

definition columnNamesConcatString_of :: "SqlTable \<Rightarrow> string" where
  "columnNamesConcatString_of currentTable =
     foldl (\<lambda>completeString column. completeString @ '' '' @ columnName column)
       '''' (columns currentTable) @ nl"

text \<open>
  The \<open>try\<close> block: with a sample count of zero no query is made and the formatter gets
  \<open>null\<close>; a query that throws leaves \<open>sample\<close> empty and logs the error.
\<close>

definition sample_of :: "'s client \<Rightarrow> int \<Rightarrow> string \<Rightarrow> 's world \<Rightarrow> string \<times> 's world" where
  "sample_of appDataSource nbSampleRow sqlSelectInfoQuery w =
     (if nbSampleRow \<noteq> 0
      then (case query appDataSource sqlSelectInfoQuery w of
              (Inl e, w') \<Rightarrow> ('''', console_log e w')
            | (Inr infoObjectResult, w') \<Rightarrow>
                (formatSqlResponseToSimpleTableString (Some infoObjectResult), w'))
      else (formatSqlResponseToSimpleTableString None, w))"

fun generate_loop ::
  "'s client \<Rightarrow> int \<Rightarrow> (string \<rightharpoonup> string) option \<Rightarrow> SqlTable list \<Rightarrow> string \<Rightarrow> 's world
     \<Rightarrow> string \<times> 's world" where
  "generate_loop appDataSource nbSampleRow descr [] globalString w = (globalString, w)"
| "generate_loop appDataSource nbSampleRow descr (currentTable # rest) globalString w =
     (let sqlSelectInfoQuery = sqlSelectInfoQuery_of currentTable nbSampleRow
      in case sample_of appDataSource nbSampleRow sqlSelectInfoQuery w of
           (sample, w') \<Rightarrow>
             generate_loop appDataSource nbSampleRow descr rest
               (globalString @
                (tableCustomDescription_of descr currentTable @
                 sqlCreateTableQuery_of currentTable @
                 sqlSelectInfoQuery @
                 columnNamesConcatString_of currentTable @
                 sample))
               w')"

definition generateTableInfoFromTables ::
  "SqlTable list option \<Rightarrow> 's client \<Rightarrow> int \<Rightarrow> (string \<rightharpoonup> string) option \<Rightarrow> 's world
     \<Rightarrow> string \<times> 's world" where
  "generateTableInfoFromTables tables appDataSource nbSampleRow descr w =
     (case tables of
        None \<Rightarrow> ('''', w)
      | Some ts \<Rightarrow> generate_loop appDataSource nbSampleRow descr ts '''' w)"

section \<open>athena-sql-db\<close>

record 'c AthenaSqlDatabaseDataSourceParams =
  cfg_athenaDataSourceConfig :: 'c
  cfg_includesTables :: "string list option"
  cfg_ignoreTables :: "string list option"
  cfg_sampleRowsInTableInfo :: "int option"
  cfg_customDescription :: "(string \<rightharpoonup> string) option"

text \<open>
  The class fields \<open>clientConfig\<close>, \<open>database\<close> and \<open>catalog\<close> are declared and
  never assigned or read; the record leaves them out. The asynchronous factory
  \<open>fromDataSourceParams\<close> and the loader's query \<open>getTableAndColumnsName\<close> hand the
  client's answer to \<open>formatToSqlTable\<close> through a type assertion and are not part of
  this development; \<open>allTables\<close> is any list of tables.
\<close>

record 's AthenaSqlDatabase =
  athenaDataSource :: "'s client"
  allTables :: "SqlTable list"
  includesTables :: "string list"
  ignoreTables :: "string list"
  sampleRowsInTableInfo :: int
  customDescription :: "(string \<rightharpoonup> string) option"

text \<open>
  The constructor. \<open>newClient\<close> stands for \<open>new AthenaQueryClient(...)\<close> of the
  external library. An array, empty or not, is truthy, so the guard asks whether both
  lists are present. The constructor never reads \<open>config.customDescription\<close>.
  \<open>newClient\<close> is taken to be total and to make no query; under that reading it does
  not matter that the source builds the client before it tests the guard.
\<close>

definition AthenaSqlDatabase_constructor ::
  "('c \<Rightarrow> 's client) \<Rightarrow> 'c AthenaSqlDatabaseDataSourceParams \<Rightarrow> error + 's AthenaSqlDatabase" where
  "AthenaSqlDatabase_constructor newClient config =
     (if cfg_includesTables config \<noteq> None \<and> cfg_ignoreTables config \<noteq> None
      then Inl (Error ''Cannot specify both include_tables and ignoreTables'')
      else Inr
        \<lparr>athenaDataSource = newClient (cfg_athenaDataSourceConfig config),
         allTables = [],
         includesTables = (case cfg_includesTables config of None \<Rightarrow> [] | Some l \<Rightarrow> l),
         ignoreTables = (case cfg_ignoreTables config of None \<Rightarrow> [] | Some l \<Rightarrow> l),
         sampleRowsInTableInfo = (case cfg_sampleRowsInTableInfo config of None \<Rightarrow> 3 | Some n \<Rightarrow> n),
         customDescription = None\<rparr>)"

text \<open>
  The first half of \<open>getTableInfo\<close>: the value of \<open>selectedTables\<close> when
  \<open>generateTableInfoFromTables\<close> is called, or the error thrown before that.
\<close>

definition getTableInfo_selectedTables ::
  "'s AthenaSqlDatabase \<Rightarrow> string list option \<Rightarrow> error + SqlTable list" where
  "getTableInfo_selectedTables this targetTables =
     (let selectedTables =
            (if length (includesTables this) > 0
             then filter (\<lambda>currentTable. tableName currentTable \<in> set (includesTables this))
                    (allTables this)
             else allTables this);
          selectedTables =
            (if length (ignoreTables this) > 0
             then filter (\<lambda>currentTable. tableName currentTable \<notin> set (ignoreTables this))
                    selectedTables
             else selectedTables)
      in case targetTables of
           None \<Rightarrow> Inr selectedTables
         | Some tt \<Rightarrow>
             if length tt > 0
             then (case verifyListTablesExistInDatabase (allTables this) tt
                          ''Wrong target table name:'' of
                     Inl e \<Rightarrow> Inl e
                   | Inr u \<Rightarrow>
                       Inr (filter (\<lambda>currentTable. tableName currentTable \<in> set tt)
                              (allTables this)))
             else Inr selectedTables)"

definition getTableInfo ::
  "'s AthenaSqlDatabase \<Rightarrow> string list option \<Rightarrow> 's world \<Rightarrow> (error + string) \<times> 's world" where
  "getTableInfo this targetTables w =
     (case getTableInfo_selectedTables this targetTables of
        Inl e \<Rightarrow> (Inl e, w)
      | Inr selectedTables \<Rightarrow>
          (case generateTableInfoFromTables (Some selectedTables) (athenaDataSource this)
                  (sampleRowsInTableInfo this) (customDescription this) w of
             (s, w') \<Rightarrow> (Inr s, w')))"

datatype fetch = FetchAll | FetchOne

text \<open>
  \<open>run\<close>: the \<open>fetch\<close> argument defaults to \<open>'all'\<close> when it is left out.
  \<open>JSON_stringify\<close> is the runtime's serializer.
\<close>

definition run ::
  "(json_input \<Rightarrow> string) \<Rightarrow> 's AthenaSqlDatabase \<Rightarrow> string \<Rightarrow> fetch option \<Rightarrow> 's world
     \<Rightarrow> (error + string) \<times> 's world" where
  "run JSON_stringify this command fetch_arg w =
     (let fetch = (case fetch_arg of None \<Rightarrow> FetchAll | Some f \<Rightarrow> f)
      in case query (athenaDataSource this) command w of
           (Inl e, w') \<Rightarrow> (Inl e, w')
         | (Inr res, w') \<Rightarrow>
             (if fetch = FetchAll then (Inr (JSON_stringify (JRows res)), w')
              else if length res > 0 then (Inr (JSON_stringify (JRow (res ! 0))), w')
              else (Inr '''', w')))"

section \<open>Reference descriptions\<close>

text \<open>
  The text of one table's block up to, and without, its sample rows: the description, the
  \<open>CREATE TABLE\<close> text, the sample statement and the line of column names.
\<close>

definition block_without_sample :: "(string \<rightharpoonup> string) option \<Rightarrow> int \<Rightarrow> SqlTable \<Rightarrow> string" where
  "block_without_sample descr nbSampleRow currentTable =
     tableCustomDescription_of descr currentTable @
     sqlCreateTableQuery_of currentTable @
     sqlSelectInfoQuery_of currentTable nbSampleRow @
     columnNamesConcatString_of currentTable"

text \<open>
  The grouping the schema loader is described to perform, written without the loop: the
  distinct table names in the order of their first occurrence, each with the columns of
  its rows in row order. \<open>remdups\<close> keeps the last occurrence of each element, so it
  is applied to the reversed list.
\<close>

definition first_seen :: "string list \<Rightarrow> string list" where
  "first_seen names = rev (remdups (rev names))"

definition fold_spec :: "RawResultTableAndColumn list \<Rightarrow> SqlTable list" where
  "fold_spec rows =
     map (\<lambda>n. \<lparr>tableName = n,
               columns = map sqlColumn_of (filter (\<lambda>r. table_name r = n) rows)\<rparr>)
       (first_seen (map table_name rows))"

text \<open>The table of the formatting example: \<open>t\<close> with a non-nullable \<open>id\<close> and a nullable \<open>name\<close>.\<close>

definition spec_example_table :: SqlTable where
  "spec_example_table =
     \<lparr>tableName = ''t'',
      columns = [\<lparr>columnName = ''id'', dataType = Some ''int'', isNullable = Some False\<rparr>,
                 \<lparr>columnName = ''name'', dataType = Some ''varchar'', isNullable = Some True\<rparr>]\<rparr>"

section \<open>Auxiliary facts\<close>

lemma show_nat_small: "n < 10 \<Longrightarrow> show_nat n = [''0123456789'' ! n]"
  by (simp add: show_nat.simps)

lemma verify_loop_ok: "set L \<subseteq> set names \<Longrightarrow> verify_loop names L p = Inr ()"
  by (induction L) simp_all

lemma verify_loop_first_missing:
  "find (\<lambda>n. n \<notin> set names) L = Some m \<Longrightarrow>
   verify_loop names L p =
     Inl (Error (p @ '' the table '' @ m @ '' was not found in the database''))"
  by (induction L) (simp_all split: if_splits)

lemma find_missing_exists: "\<not> set L \<subseteq> S \<Longrightarrow> \<exists>m. find (\<lambda>n. n \<notin> S) L = Some m"
proof -
  assume "\<not> set L \<subseteq> S"
  then have "find (\<lambda>n. n \<notin> S) L \<noteq> None"
    by (auto simp: find_None_iff)
  then show ?thesis by blast
qed

lemma verify_ok:
  "set L \<subseteq> tableName ` set T \<Longrightarrow> verifyListTablesExistInDatabase T L p = Inr ()"
  by (simp add: verifyListTablesExistInDatabase_def Let_def verify_loop_ok)

lemma verify_first_missing:
  "find (\<lambda>n. n \<notin> tableName ` set T) L = Some m \<Longrightarrow>
   verifyListTablesExistInDatabase T L p =
     Inl (Error (p @ '' the table '' @ m @ '' was not found in the database''))"
  using verify_loop_first_missing [of "map tableName T" L m p]
  by (cases L) (simp_all add: verifyListTablesExistInDatabase_def Let_def)

lemma getTableInfo_configured:
  "getTableInfo_selectedTables this None =
     Inr (filter (\<lambda>t. tableName t \<notin> set (ignoreTables this))
            (if includesTables this = [] then allTables this
             else filter (\<lambda>t. tableName t \<in> set (includesTables this)) (allTables this)))"
  by (simp add: getTableInfo_selectedTables_def Let_def)

lemma sample_of_zero: "sample_of c 0 q w = ('''', w)"
  by (simp add: sample_of_def formatSqlResponseToSimpleTableString_def)

lemma sample_of_fail:
  "n \<noteq> 0 \<Longrightarrow> c q (remote w) = (Inl e, r') \<Longrightarrow>
   sample_of c n q w =
     ('''', w\<lparr>remote := r', issued := issued w @ [q], console := console w @ [e]\<rparr>)"
  by (simp add: sample_of_def query_def console_log_def)

lemma generate_loop_zero:
  "generate_loop c 0 d ts acc w = (acc @ concat (map (block_without_sample d 0) ts), w)"
  by (induction ts arbitrary: acc) (simp_all add: sample_of_zero block_without_sample_def)

lemma generate_loop_acc:
  "generate_loop c n d ts acc w =
     (acc @ fst (generate_loop c n d ts '''' w), snd (generate_loop c n d ts '''' w))"
proof (induction ts arbitrary: acc w)
  case Nil
  show ?case by simp
next
  case (Cons t ts)
  obtain s w' where sw: "sample_of c n (sqlSelectInfoQuery_of t n) w = (s, w')"
    by (cases "sample_of c n (sqlSelectInfoQuery_of t n) w")
  let ?b = "tableCustomDescription_of d t @ sqlCreateTableQuery_of t @
            sqlSelectInfoQuery_of t n @ columnNamesConcatString_of t @ s"
  have l: "generate_loop c n d (t # ts) acc w = generate_loop c n d ts (acc @ ?b) w'"
    using sw by simp
  have r: "generate_loop c n d (t # ts) '''' w = generate_loop c n d ts ?b w'"
    using sw by simp
  show ?case
    unfolding l r using Cons.IH [of "acc @ ?b" w'] Cons.IH [of ?b w'] by simp
qed

lemma generate_loop_append:
  "generate_loop c n d (xs @ ys) acc w =
     (case generate_loop c n d xs acc w of (s, w') \<Rightarrow> generate_loop c n d ys s w')"
  by (induction xs arbitrary: acc w) (simp_all add: Let_def split: prod.splits)

lemma generate_zero:
  "generateTableInfoFromTables (Some ts) c 0 descr w =
     (concat (map (block_without_sample descr 0) ts), w)"
  by (simp add: generateTableInfoFromTables_def generate_loop_zero)

lemma generate_failing_sample:
  assumes n: "n \<noteq> 0"
    and pre: "generateTableInfoFromTables (Some ts1) c n descr w = (s1, w1)"
    and fail: "c (sqlSelectInfoQuery_of t n) (remote w1) = (Inl e, r')"
  shows "generateTableInfoFromTables (Some (ts1 @ t # ts2)) c n descr w =
           (case generateTableInfoFromTables (Some ts2) c n descr
                   (w1\<lparr>remote := r', issued := issued w1 @ [sqlSelectInfoQuery_of t n],
                       console := console w1 @ [e]\<rparr>) of
              (s2, w2) \<Rightarrow> (s1 @ block_without_sample descr n t @ s2, w2))"
proof -
  let ?w = "w1\<lparr>remote := r', issued := issued w1 @ [sqlSelectInfoQuery_of t n],
                console := console w1 @ [e]\<rparr>"
  from pre have p: "generate_loop c n descr ts1 '''' w = (s1, w1)"
    by (simp add: generateTableInfoFromTables_def)
  have "generate_loop c n descr (ts1 @ t # ts2) '''' w = generate_loop c n descr (t # ts2) s1 w1"
    by (simp add: generate_loop_append p)
  also have "\<dots> = generate_loop c n descr ts2 (s1 @ block_without_sample descr n t) ?w"
    by (simp add: sample_of_fail [where c = c and q = "sqlSelectInfoQuery_of t n" and w = w1, OF n fail] block_without_sample_def Let_def)
  also have "\<dots> = (s1 @ block_without_sample descr n t @ fst (generate_loop c n descr ts2 '''' ?w),
                    snd (generate_loop c n descr ts2 '''' ?w))"
    using generate_loop_acc [of c n descr ts2 "s1 @ block_without_sample descr n t" ?w] by simp
  finally show ?thesis
    by (simp add: generateTableInfoFromTables_def split: prod.splits)
qed

lemma formatToSqlTable_loop_foldl:
  "formatToSqlTable_loop rows acc = foldl formatToSqlTable_step acc rows"
  by (induction rows arbitrary: acc) simp_all

lemma first_seen_snoc:
  "first_seen (xs @ [n]) = (if n \<in> set xs then first_seen xs else first_seen xs @ [n])"
  by (simp add: first_seen_def)

lemma set_first_seen: "set (first_seen xs) = set xs"
  by (simp add: first_seen_def)

lemma distinct_first_seen: "distinct (first_seen xs)"
  by (simp add: first_seen_def)

lemma find_map_table:
  "find (\<lambda>t. tableName t = n) (map (\<lambda>m. \<lparr>tableName = m, columns = f m\<rparr>) ns) =
     (if n \<in> set ns then Some \<lparr>tableName = n, columns = f n\<rparr> else None)"
  by (induction ns) auto

lemma push_column_map:
  "distinct ns \<Longrightarrow>
   push_column n c (map (\<lambda>m. \<lparr>tableName = m, columns = f m\<rparr>) ns) =
     map (\<lambda>m. \<lparr>tableName = m, columns = (if m = n then f m @ [c] else f m)\<rparr>) ns"
proof (induction ns)
  case Nil
  show ?case by simp
next
  case (Cons a ns)
  show ?case
  proof (cases "a = n")
    case True
    with Cons.prems have "n \<notin> set ns" by simp
    then have "map (\<lambda>m. \<lparr>tableName = m, columns = (if m = n then f m @ [c] else f m)\<rparr>) ns =
               map (\<lambda>m. \<lparr>tableName = m, columns = f m\<rparr>) ns"
      by (intro map_cong) auto
    with True show ?thesis by simp
  next
    case False
    with Cons show ?thesis by simp
  qed
qed

lemma fold_spec_snoc:
  "fold_spec (rows @ [r]) = formatToSqlTable_step (fold_spec rows) r"
proof (cases "table_name r \<in> set (map table_name rows)")
  case True
  then have fs: "first_seen (map table_name (rows @ [r])) = first_seen (map table_name rows)"
    by (simp add: first_seen_snoc)
  have mem: "table_name r \<in> set (first_seen (map table_name rows))"
    using True by (simp only: set_first_seen)
  have step: "formatToSqlTable_step (fold_spec rows) r =
              push_column (table_name r) (sqlColumn_of r) (fold_spec rows)"
    using mem by (simp add: formatToSqlTable_step_def fold_spec_def find_map_table)
  have "fold_spec (rows @ [r]) =
        map (\<lambda>n. \<lparr>tableName = n, columns = map sqlColumn_of
                  (filter (\<lambda>x. table_name x = n) (rows @ [r]))\<rparr>)
          (first_seen (map table_name rows))"
    by (simp only: fold_spec_def fs)
  also have "\<dots> =
        map (\<lambda>n. \<lparr>tableName = n, columns =
                  (if n = table_name r
                   then map sqlColumn_of (filter (\<lambda>x. table_name x = n) rows) @ [sqlColumn_of r]
                   else map sqlColumn_of (filter (\<lambda>x. table_name x = n) rows))\<rparr>)
          (first_seen (map table_name rows))"
    by (rule map_cong) auto
  also have "\<dots> = push_column (table_name r) (sqlColumn_of r) (fold_spec rows)"
    by (simp only: fold_spec_def push_column_map [OF distinct_first_seen])
  finally show ?thesis
    by (simp only: step)
next
  case False
  then have fs: "first_seen (map table_name (rows @ [r])) =
                 first_seen (map table_name rows) @ [table_name r]"
    by (simp add: first_seen_snoc)
  have nomem: "table_name r \<notin> set (first_seen (map table_name rows))"
    using False by (simp add: set_first_seen)
  have none: "filter (\<lambda>x. table_name x = table_name r) rows = []"
  proof -
    have "\<forall>x\<in>set rows. table_name x \<noteq> table_name r"
      using False by (metis image_eqI list.set_map)
    then show ?thesis by (simp add: filter_empty_conv)
  qed
  have same: "map (\<lambda>n. \<lparr>tableName = n, columns = map sqlColumn_of
                  (filter (\<lambda>x. table_name x = n) (rows @ [r]))\<rparr>) (first_seen (map table_name rows)) =
              map (\<lambda>n. \<lparr>tableName = n, columns = map sqlColumn_of
                  (filter (\<lambda>x. table_name x = n) rows)\<rparr>) (first_seen (map table_name rows))"
    using nomem by (intro map_cong) auto
  have step: "formatToSqlTable_step (fold_spec rows) r =
              fold_spec rows @ [\<lparr>tableName = table_name r, columns = [sqlColumn_of r]\<rparr>]"
    using nomem by (simp add: formatToSqlTable_step_def fold_spec_def find_map_table)
  have last: "map sqlColumn_of (filter (\<lambda>x. table_name x = table_name r) (rows @ [r])) =
              [sqlColumn_of r]"
    by (simp add: none)
  have "fold_spec (rows @ [r]) =
        map (\<lambda>n. \<lparr>tableName = n, columns = map sqlColumn_of
                  (filter (\<lambda>x. table_name x = n) (rows @ [r]))\<rparr>) (first_seen (map table_name rows)) @
        [\<lparr>tableName = table_name r, columns = map sqlColumn_of
                  (filter (\<lambda>x. table_name x = table_name r) (rows @ [r]))\<rparr>]"
    unfolding fold_spec_def fs by (simp only: map_append list.map)
  also have "\<dots> = fold_spec rows @ [\<lparr>tableName = table_name r, columns = [sqlColumn_of r]\<rparr>]"
    by (simp only: same last fold_spec_def)
  finally show ?thesis
    by (simp only: step)
qed

lemma formatToSqlTable_fold_spec: "formatToSqlTable rows = fold_spec rows"
proof (induction rows rule: rev_induct)
  case Nil
  show ?case by (simp add: formatToSqlTable_def fold_spec_def first_seen_def)
next
  case (snoc r rows)
  then show ?case
    by (simp add: formatToSqlTable_def formatToSqlTable_loop_foldl fold_spec_snoc)
qed

lemma filter_eq_distinct:
  "distinct xs \<Longrightarrow> filter (\<lambda>m. m = n) xs = (if n \<in> set xs then [n] else [])"
  by (induction xs) auto

lemma remdups_snoc: "remdups (ys @ [x]) = filter (\<lambda>y. y \<noteq> x) (remdups ys) @ [x]"
  by (induction ys) auto

lemma first_seen_Cons:
  "first_seen (x # xs) = x # filter (\<lambda>y. y \<noteq> x) (first_seen xs)"
  by (simp add: first_seen_def remdups_snoc rev_filter)

lemma sublist_after: "sublist xs ys \<Longrightarrow> sublist xs (ps @ ys)"
  by (meson sublist_append)

lemma example_text_parts:
  "sublist (''CREATE TABLE t ('' @ nl @ ''id int NOT NULL, name varchar ) '' @ nl)
     (''CREATE TABLE t ('' @ nl @ ''id int NOT NULL, name varchar ) '' @ nl @
      ''SELECT * FROM t LIMIT 0;'' @ nl @ '' id name'' @ nl)"
  "sublist (''SELECT * FROM t LIMIT 0;'' @ nl)
     (''CREATE TABLE t ('' @ nl @ ''id int NOT NULL, name varchar ) '' @ nl @
      ''SELECT * FROM t LIMIT 0;'' @ nl @ '' id name'' @ nl)"
  "suffix (nl @ '' id name'' @ nl)
     (''CREATE TABLE t ('' @ nl @ ''id int NOT NULL, name varchar ) '' @ nl @
      ''SELECT * FROM t LIMIT 0;'' @ nl @ '' id name'' @ nl)"
  by code_simp+

lemma block_example:
  "block_without_sample descr 0 spec_example_table =
   tableCustomDescription_of descr spec_example_table @
   ''CREATE TABLE t ('' @ nl @ ''id int NOT NULL, name varchar ) '' @ nl @
   ''SELECT * FROM t LIMIT 0;'' @ nl @ '' id name'' @ nl"
  by (simp add: block_without_sample_def sqlCreateTableQuery_of_def sqlSelectInfoQuery_of_def
      columnNamesConcatString_of_def template_opt_def show_int_def show_nat_small
      spec_example_table_def)

section \<open>The claims\<close>

subsection \<open>C1\<close>

text \<open>
  Claim C1, as the code has it. For the table \<open>t\<close> with the columns \<open>id\<close>
  (\<open>int\<close>, not nullable) and \<open>name\<close> (\<open>varchar\<close>, nullable) and a sample count
  of zero, the formatter returns, after the table's description line if the description
  map has one, exactly four lines: \<open>CREATE TABLE t (\<close>, then
  \<open>id int NOT NULL, name varchar ) \<close> (with its trailing space), then
  \<open>SELECT * FROM t LIMIT 0;\<close>, then the column-name line \<open> id name\<close> with its
  leading space. So the output contains the \<open>CREATE TABLE\<close> text with a line break
  after its opening parenthesis, contains the sample statement, and ends with the
  column-name line: there are no sample rows. The world is unchanged, so no query was
  made.
\<close>

theorem C1_format_example:
  "generateTableInfoFromTables (Some [spec_example_table]) c 0 descr w =
     (tableCustomDescription_of descr spec_example_table @
      ''CREATE TABLE t ('' @ nl @ ''id int NOT NULL, name varchar ) '' @ nl @
      ''SELECT * FROM t LIMIT 0;'' @ nl @ '' id name'' @ nl, w)
   \<and> sublist (''CREATE TABLE t ('' @ nl @ ''id int NOT NULL, name varchar ) '' @ nl)
       (fst (generateTableInfoFromTables (Some [spec_example_table]) c 0 descr w))
   \<and> sublist (''SELECT * FROM t LIMIT 0;'' @ nl)
       (fst (generateTableInfoFromTables (Some [spec_example_table]) c 0 descr w))
   \<and> suffix (nl @ '' id name'' @ nl)
       (fst (generateTableInfoFromTables (Some [spec_example_table]) c 0 descr w))"
  by (simp only: generate_zero list.map concat.simps append_Nil2 block_example fst_conv
      example_text_parts sublist_after suffix_appendI simp_thms)

text \<open>
  Claim C1 as stated fails: the text \<open>CREATE TABLE t (id int NOT NULL, name varchar )\<close>,
  with the first column on the line of the opening parenthesis, is not a substring of the
  formatter's output.
\<close>

theorem C1_counterexample:
  "\<not> sublist ''CREATE TABLE t (id int NOT NULL, name varchar )''
     (fst (generateTableInfoFromTables (Some [spec_example_table])
        (\<lambda>sql (s::unit). (Inr [], s)) 0 None \<lparr>remote = (), issued = [], console = []\<rparr>))"
proof -
  have "\<not> sublist ''CREATE TABLE t (id int NOT NULL, name varchar )''
          (''CREATE TABLE t ('' @ nl @ ''id int NOT NULL, name varchar ) '' @ nl @
           ''SELECT * FROM t LIMIT 0;'' @ nl @ '' id name'' @ nl)"
    by code_simp
  then show ?thesis
    by (simp only: generate_zero list.map concat.simps append_Nil2 block_example fst_conv
        tableCustomDescription_of_def option.case append_Nil simp_thms)
qed

subsection \<open>C2\<close>

text \<open>
  Claim C2. Whenever the configuration carries both an include list and an ignore list,
  empty or not, the constructor throws \<open>Cannot specify both include_tables and
  ignoreTables\<close>. The constructor takes no world: it makes no query.
\<close>

theorem C2_both_lists_rejected:
  "cfg_includesTables config = Some I \<Longrightarrow> cfg_ignoreTables config = Some G \<Longrightarrow>
   AthenaSqlDatabase_constructor newClient config =
     Inl (Error ''Cannot specify both include_tables and ignoreTables'')"
  by (simp add: AthenaSqlDatabase_constructor_def)

text \<open>
  C2 at two configurations: both lists non-empty, and both lists present and empty.
\<close>

theorem C2_both_lists_rejected_witness:
  "AthenaSqlDatabase_constructor (\<lambda>(u::unit) sql (s::unit). (Inr [], s))
     \<lparr>cfg_athenaDataSourceConfig = (), cfg_includesTables = Some [''a''],
      cfg_ignoreTables = Some [''b''], cfg_sampleRowsInTableInfo = None,
      cfg_customDescription = None\<rparr> =
     Inl (Error ''Cannot specify both include_tables and ignoreTables'')
   \<and> AthenaSqlDatabase_constructor (\<lambda>(u::unit) sql (s::unit). (Inr [], s))
     \<lparr>cfg_athenaDataSourceConfig = (), cfg_includesTables = Some [],
      cfg_ignoreTables = Some [], cfg_sampleRowsInTableInfo = None,
      cfg_customDescription = None\<rparr> =
     Inl (Error ''Cannot specify both include_tables and ignoreTables'')"
  using
    C2_both_lists_rejected [of
      "\<lparr>cfg_athenaDataSourceConfig = (), cfg_includesTables = Some [''a''],
        cfg_ignoreTables = Some [''b''], cfg_sampleRowsInTableInfo = None,
        cfg_customDescription = None\<rparr>" "[''a'']" "[''b'']"
      "\<lambda>(u::unit) sql (s::unit). (Inr [], s)"]
    C2_both_lists_rejected [of
      "\<lparr>cfg_athenaDataSourceConfig = (), cfg_includesTables = Some [],
        cfg_ignoreTables = Some [], cfg_sampleRowsInTableInfo = None,
        cfg_customDescription = None\<rparr>" "[]" "[]"
      "\<lambda>(u::unit) sql (s::unit). (Inr [], s)"]
  by simp

subsection \<open>C3\<close>

text \<open>
  Claim C3. Without a target list, the selection is made from all loaded tables: those
  whose names are in the include list when that list is non-empty, all of them otherwise;
  then the tables whose names are in the ignore list are removed (removing nothing when
  the ignore list is empty). Both steps are filters, so the order of the loaded list is
  kept. \<open>getTableInfo\<close> formats exactly this selection. This holds for all table lists
  and configured lists, in particular for those whose names all exist.
\<close>

theorem C3_configured_selection:
  "getTableInfo_selectedTables this None =
     Inr (filter (\<lambda>t. tableName t \<notin> set (ignoreTables this))
            (if includesTables this = [] then allTables this
             else filter (\<lambda>t. tableName t \<in> set (includesTables this)) (allTables this)))
   \<and> getTableInfo this None w =
       (case generateTableInfoFromTables
               (Some (filter (\<lambda>t. tableName t \<notin> set (ignoreTables this))
                  (if includesTables this = [] then allTables this
                   else filter (\<lambda>t. tableName t \<in> set (includesTables this)) (allTables this))))
               (athenaDataSource this) (sampleRowsInTableInfo this) (customDescription this) w of
          (s, w') \<Rightarrow> (Inr s, w'))"
  by (simp add: getTableInfo_def getTableInfo_configured)

text \<open>
  C3 on three tables \<open>a\<close>, \<open>b\<close>, \<open>c\<close>, with \<open>c\<close> and \<open>a\<close> included and
  \<open>a\<close> ignored: only \<open>c\<close> is selected.
\<close>

theorem C3_configured_selection_witness:
  "getTableInfo_selectedTables
     \<lparr>athenaDataSource = (\<lambda>sql (s::unit). (Inr [], s)),
      allTables = [\<lparr>tableName = ''a'', columns = []\<rparr>, \<lparr>tableName = ''b'', columns = []\<rparr>,
                   \<lparr>tableName = ''c'', columns = []\<rparr>],
      includesTables = [''c'', ''a''], ignoreTables = [''a''],
      sampleRowsInTableInfo = 3, customDescription = None\<rparr> None =
   Inr [\<lparr>tableName = ''c'', columns = []\<rparr>]"
  using C3_configured_selection [of
     "\<lparr>athenaDataSource = (\<lambda>sql (s::unit). (Inr [], s)),
      allTables = [\<lparr>tableName = ''a'', columns = []\<rparr>, \<lparr>tableName = ''b'', columns = []\<rparr>,
                   \<lparr>tableName = ''c'', columns = []\<rparr>],
      includesTables = [''c'', ''a''], ignoreTables = [''a''],
      sampleRowsInTableInfo = 3, customDescription = None\<rparr>"]
  by simp

subsection \<open>C4\<close>

text \<open>
  Claim C4. For a non-empty target list whose names are all names of loaded tables, the
  selection is the loaded tables whose names are in the target list, in loaded order,
  whatever the configured include and ignore lists are; the names are checked against all
  loaded tables.
\<close>

theorem C4_target_overrides:
  assumes "tt \<noteq> []" and "set tt \<subseteq> tableName ` set (allTables this)"
  shows "getTableInfo_selectedTables this (Some tt) =
           Inr (filter (\<lambda>t. tableName t \<in> set tt) (allTables this))
         \<and> getTableInfo this (Some tt) w =
           (case generateTableInfoFromTables
                   (Some (filter (\<lambda>t. tableName t \<in> set tt) (allTables this)))
                   (athenaDataSource this) (sampleRowsInTableInfo this) (customDescription this) w of
              (s, w') \<Rightarrow> (Inr s, w'))"
proof -
  have sel: "getTableInfo_selectedTables this (Some tt) =
               Inr (filter (\<lambda>t. tableName t \<in> set tt) (allTables this))"
    using assms by (simp add: getTableInfo_selectedTables_def Let_def verify_ok)
  then show ?thesis by (simp add: getTableInfo_def)
qed

text \<open>
  C4 with \<open>a\<close> on the ignore list and the targets \<open>c\<close>, \<open>a\<close>: both are selected,
  in loaded order.
\<close>

theorem C4_target_overrides_witness:
  "getTableInfo_selectedTables
     \<lparr>athenaDataSource = (\<lambda>sql (s::unit). (Inr [], s)),
      allTables = [\<lparr>tableName = ''a'', columns = []\<rparr>, \<lparr>tableName = ''b'', columns = []\<rparr>,
                   \<lparr>tableName = ''c'', columns = []\<rparr>],
      includesTables = [], ignoreTables = [''a''],
      sampleRowsInTableInfo = 3, customDescription = None\<rparr> (Some [''c'', ''a'']) =
   Inr [\<lparr>tableName = ''a'', columns = []\<rparr>, \<lparr>tableName = ''c'', columns = []\<rparr>]"
  using C4_target_overrides [of "[''c'', ''a'']"
     "\<lparr>athenaDataSource = (\<lambda>sql (s::unit). (Inr [], s)),
      allTables = [\<lparr>tableName = ''a'', columns = []\<rparr>, \<lparr>tableName = ''b'', columns = []\<rparr>,
                   \<lparr>tableName = ''c'', columns = []\<rparr>],
      includesTables = [], ignoreTables = [''a''],
      sampleRowsInTableInfo = 3, customDescription = None\<rparr>"]
  by simp

subsection \<open>C5\<close>

text \<open>
  Claim C5. If some name of the candidate list is not the name of a loaded table, there is
  a first such name \<open>m\<close>; \<open>verifyListTablesExistInDatabase\<close> throws the caller's
  prefix followed by \<open> the table m was not found in the database\<close>, and
  \<open>getTableInfo\<close> with that list as its targets throws the same with the prefix
  \<open>Wrong target table name:\<close> and leaves the world as it was: no sample query is
  made and nothing is logged.
\<close>

theorem C5_missing_name_fails:
  assumes "\<not> set L \<subseteq> tableName ` set T"
  shows "\<exists>m. find (\<lambda>n. n \<notin> tableName ` set T) L = Some m
           \<and> verifyListTablesExistInDatabase T L p =
               Inl (Error (p @ '' the table '' @ m @ '' was not found in the database''))
           \<and> getTableInfo (this\<lparr>allTables := T\<rparr>) (Some L) w =
               (Inl (Error (''Wrong target table name:'' @ '' the table '' @ m @
                            '' was not found in the database'')), w)"
proof -
  from find_missing_exists [OF assms] obtain m where m: "find (\<lambda>n. n \<notin> tableName ` set T) L = Some m"
    ..
  from assms have ne: "L \<noteq> []" by auto
  have "getTableInfo_selectedTables (this\<lparr>allTables := T\<rparr>) (Some L) =
          Inl (Error (''Wrong target table name:'' @ '' the table '' @ m @
                      '' was not found in the database''))"
    using ne by (simp add: getTableInfo_selectedTables_def Let_def verify_first_missing [OF m])
  then have gt: "getTableInfo (this\<lparr>allTables := T\<rparr>) (Some L) w =
               (Inl (Error (''Wrong target table name:'' @ '' the table '' @ m @
                            '' was not found in the database'')), w)"
    by (simp add: getTableInfo_def)
  have vf: "verifyListTablesExistInDatabase T L p =
              Inl (Error (p @ '' the table '' @ m @ '' was not found in the database''))"
    by (rule verify_first_missing [OF m])
  show ?thesis
    by (rule exI [of _ m]) (simp only: m vf gt simp_thms)
qed

text \<open>
  C5 with the tables \<open>a\<close> and \<open>b\<close> and the candidates \<open>a\<close>, \<open>x\<close>, \<open>y\<close>:
  the error names \<open>x\<close>.
\<close>

theorem C5_missing_name_fails_witness:
  "verifyListTablesExistInDatabase
     [\<lparr>tableName = ''a'', columns = []\<rparr>, \<lparr>tableName = ''b'', columns = []\<rparr>]
     [''a'', ''x'', ''y''] ''Include tables not found in database:'' =
     Inl (Error ''Include tables not found in database: the table x was not found in the database'')
   \<and> getTableInfo
       \<lparr>athenaDataSource = (\<lambda>sql (s::unit). (Inr [], s)),
        allTables = [\<lparr>tableName = ''a'', columns = []\<rparr>, \<lparr>tableName = ''b'', columns = []\<rparr>],
        includesTables = [], ignoreTables = [],
        sampleRowsInTableInfo = 3, customDescription = None\<rparr>
       (Some [''a'', ''x'', ''y'']) \<lparr>remote = (), issued = [], console = []\<rparr> =
     (Inl (Error ''Wrong target table name: the table x was not found in the database''),
      \<lparr>remote = (), issued = [], console = []\<rparr>)"
  using C5_missing_name_fails [of "[''a'', ''x'', ''y'']"
     "[\<lparr>tableName = ''a'', columns = []\<rparr>, \<lparr>tableName = ''b'', columns = []\<rparr>]"
     "''Include tables not found in database:''"
     "\<lparr>athenaDataSource = (\<lambda>sql (s::unit). (Inr [], s)),
        allTables = [],
        includesTables = [], ignoreTables = [],
        sampleRowsInTableInfo = 3, customDescription = None\<rparr>"
     "\<lparr>remote = (), issued = [], console = []\<rparr>"]
  by simp

subsection \<open>C6\<close>

text \<open>
  Claim C6. With a sample count of zero the formatter returns, for every table list, the
  blocks of the tables without any sample text, and the world is unchanged: no query is
  made. With a non-zero count, if the sample query of a table \<open>t\<close> throws (after the
  tables \<open>ts1\<close> before it gave the text \<open>s1\<close>), the formatter still returns: its text
  is \<open>s1\<close>, the block of \<open>t\<close> with an empty sample, and the text of the remaining
  tables \<open>ts2\<close> formatted from the world in which that query was made and its error
  logged.
\<close>

theorem C6_samples_never_abort:
  "generateTableInfoFromTables (Some ts) c 0 descr w =
     (concat (map (block_without_sample descr 0) ts), w)
   \<and> (\<forall>ts1 t ts2 n e s1 w1 r'.
        n \<noteq> 0 \<and> generateTableInfoFromTables (Some ts1) c n descr w = (s1, w1)
          \<and> c (sqlSelectInfoQuery_of t n) (remote w1) = (Inl e, r') \<longrightarrow>
        generateTableInfoFromTables (Some (ts1 @ t # ts2)) c n descr w =
          (case generateTableInfoFromTables (Some ts2) c n descr
                  (w1\<lparr>remote := r', issued := issued w1 @ [sqlSelectInfoQuery_of t n],
                      console := console w1 @ [e]\<rparr>) of
             (s2, w2) \<Rightarrow> (s1 @ block_without_sample descr n t @ s2, w2)))"
proof (intro conjI allI impI)
  show "generateTableInfoFromTables (Some ts) c 0 descr w =
          (concat (map (block_without_sample descr 0) ts), w)"
    by (rule generate_zero)
next
  fix ts1 t ts2 n e s1 w1 r'
  assume "n \<noteq> 0 \<and> generateTableInfoFromTables (Some ts1) c n descr w = (s1, w1)
          \<and> c (sqlSelectInfoQuery_of t n) (remote w1) = (Inl e, r')"
  then have n: "n \<noteq> 0"
    and pre: "generateTableInfoFromTables (Some ts1) c n descr w = (s1, w1)"
    and fail: "c (sqlSelectInfoQuery_of t n) (remote w1) = (Inl e, r')"
    by simp_all
  show "generateTableInfoFromTables (Some (ts1 @ t # ts2)) c n descr w =
          (case generateTableInfoFromTables (Some ts2) c n descr
                  (w1\<lparr>remote := r', issued := issued w1 @ [sqlSelectInfoQuery_of t n],
                      console := console w1 @ [e]\<rparr>) of
             (s2, w2) \<Rightarrow> (s1 @ block_without_sample descr n t @ s2, w2))"
    by (rule generate_failing_sample
          [where c = c and t = t and n = n and ?w1.0 = w1 and e = e and r' = r', OF n pre fail])
qed

text \<open>
  C6 with a client that throws for table \<open>a\<close> and answers one row for table \<open>b\<close>:
  the block of \<open>a\<close> has no sample, the block of \<open>b\<close> has its row, both queries were
  made and one error was logged.
\<close>

theorem C6_samples_never_abort_witness:
  "generateTableInfoFromTables
     (Some [\<lparr>tableName = ''a'', columns = []\<rparr>, \<lparr>tableName = ''b'', columns = []\<rparr>])
     (\<lambda>sql (s::unit).
        if sql = ''SELECT * FROM a LIMIT 1;'' @ nl then (Inl (Error ''boom''), s)
        else (Inr [[(''x'', JNum 7)]], s))
     1 None \<lparr>remote = (), issued = [], console = []\<rparr> =
   (''CREATE TABLE a ('' @ nl @ '') '' @ nl @ ''SELECT * FROM a LIMIT 1;'' @ nl @ nl @
    ''CREATE TABLE b ('' @ nl @ '') '' @ nl @ ''SELECT * FROM b LIMIT 1;'' @ nl @ nl @
    '' 7'' @ nl,
    \<lparr>remote = (),
     issued = [''SELECT * FROM a LIMIT 1;'' @ nl, ''SELECT * FROM b LIMIT 1;'' @ nl],
     console = [Error ''boom'']\<rparr>)"
proof -
  let ?c = "\<lambda>sql (s::unit).
        if sql = ''SELECT * FROM a LIMIT 1;'' @ nl then (Inl (Error ''boom''), s)
        else (Inr [[(''x'', JNum 7)]], s)"
  let ?w = "\<lparr>remote = (), issued = [], console = []\<rparr> :: unit world"
  have sel: "sqlSelectInfoQuery_of \<lparr>tableName = ''a'', columns = []\<rparr> 1 = ''SELECT * FROM a LIMIT 1;'' @ nl"
    by (simp add: sqlSelectInfoQuery_of_def show_int_def show_nat_small)
  have pre: "generateTableInfoFromTables (Some []) ?c 1 None ?w = ('''', ?w)"
    by (simp add: generateTableInfoFromTables_def)
  have fail: "?c (sqlSelectInfoQuery_of \<lparr>tableName = ''a'', columns = []\<rparr> 1) (remote ?w) =
                (Inl (Error ''boom''), ())"
    by (simp add: sel)
  have "(1::int) \<noteq> 0 \<and> generateTableInfoFromTables (Some []) ?c 1 None ?w = ('''', ?w)
          \<and> ?c (sqlSelectInfoQuery_of \<lparr>tableName = ''a'', columns = []\<rparr> 1) (remote ?w) =
                (Inl (Error ''boom''), ())"
    using pre fail by simp
  with C6_samples_never_abort [of "[]" ?c None ?w, THEN conjunct2, rule_format,
        of 1 "[]" "''''" ?w "\<lparr>tableName = ''a'', columns = []\<rparr>" "Error ''boom''" "()"
           "[\<lparr>tableName = ''b'', columns = []\<rparr>]"]
  show ?thesis
    by (simp add: generateTableInfoFromTables_def sample_of_def query_def console_log_def
        formatSqlResponseToSimpleTableString_def row_line_def block_without_sample_def
        sqlCreateTableQuery_of_def sqlSelectInfoQuery_of_def columnNamesConcatString_of_def
        tableCustomDescription_of_def show_int_def show_nat_small)
qed

subsection \<open>C7\<close>

text \<open>
  Claim C7. For every row list, \<open>formatToSqlTable\<close> returns one table for each
  distinct \<open>table_name\<close>, in the order in which the names first occur, each with the
  columns of its rows in row order; the names of the result are distinct and are exactly
  the names of the rows; the empty row list gives the empty table list.
\<close>

theorem C7_one_table_per_name:
  "formatToSqlTable rows = fold_spec rows
   \<and> distinct (map tableName (formatToSqlTable rows))
   \<and> set (map tableName (formatToSqlTable rows)) = set (map table_name rows)
   \<and> formatToSqlTable [] = []"
proof -
  have names: "map tableName (fold_spec rows) = first_seen (map table_name rows)"
    by (simp add: fold_spec_def o_def)
  show ?thesis
    by (simp add: formatToSqlTable_fold_spec names distinct_first_seen set_first_seen
        del: set_map)
      (simp add: fold_spec_def first_seen_def)
qed

text \<open>
  C7 on rows of the tables \<open>a\<close>, \<open>b\<close>, \<open>a\<close>.
\<close>

theorem C7_one_table_per_name_witness:
  "formatToSqlTable
     [\<lparr>table_name = ''a'', column_name = ''x'', data_type = Some ''int'', is_nullable = Some ''YES''\<rparr>,
      \<lparr>table_name = ''b'', column_name = ''y'', data_type = None, is_nullable = Some ''NO''\<rparr>,
      \<lparr>table_name = ''a'', column_name = ''z'', data_type = Some ''date'', is_nullable = None\<rparr>] =
   [\<lparr>tableName = ''a'',
     columns = [\<lparr>columnName = ''x'', dataType = Some ''int'', isNullable = Some True\<rparr>,
                \<lparr>columnName = ''z'', dataType = Some ''date'', isNullable = Some False\<rparr>]\<rparr>,
    \<lparr>tableName = ''b'',
     columns = [\<lparr>columnName = ''y'', dataType = None, isNullable = Some False\<rparr>]\<rparr>]"
  using C7_one_table_per_name [of
     "[\<lparr>table_name = ''a'', column_name = ''x'', data_type = Some ''int'', is_nullable = Some ''YES''\<rparr>,
      \<lparr>table_name = ''b'', column_name = ''y'', data_type = None, is_nullable = Some ''NO''\<rparr>,
      \<lparr>table_name = ''a'', column_name = ''z'', data_type = Some ''date'', is_nullable = None\<rparr>]"]
  by (simp add: fold_spec_def first_seen_def sqlColumn_of_def)

subsection \<open>C8\<close>

text \<open>
  Claim C8. The column made from a row is nullable exactly when the row's
  \<open>is_nullable\<close> is the string \<open>YES\<close>; and for every table name, the nullability
  flags of that table's columns in the result of \<open>formatToSqlTable\<close> are, in row
  order, those of the rows with that name.
\<close>

theorem C8_nullable_iff_YES:
  "isNullable (sqlColumn_of r) = Some (is_nullable r = Some ''YES'')
   \<and> map isNullable (concat (map columns (filter (\<lambda>t. tableName t = n) (formatToSqlTable rows)))) =
       map (\<lambda>r. Some (is_nullable r = Some ''YES'')) (filter (\<lambda>r. table_name r = n) rows)"
proof -
  have none: "n \<notin> set (map table_name rows) \<Longrightarrow> filter (\<lambda>r. table_name r = n) rows = []"
  proof -
    assume "n \<notin> set (map table_name rows)"
    then have "\<forall>x\<in>set rows. table_name x \<noteq> n"
      by (metis image_eqI list.set_map)
    then show ?thesis by (simp add: filter_empty_conv)
  qed
  have "filter (\<lambda>t. tableName t = n) (fold_spec rows) =
          map (\<lambda>m. \<lparr>tableName = m,
                    columns = map sqlColumn_of (filter (\<lambda>r. table_name r = m) rows)\<rparr>)
            (filter (\<lambda>m. m = n) (first_seen (map table_name rows)))"
    by (simp add: fold_spec_def filter_map o_def)
  also have "\<dots> = (if n \<in> set (map table_name rows)
                    then [\<lparr>tableName = n,
                           columns = map sqlColumn_of (filter (\<lambda>r. table_name r = n) rows)\<rparr>]
                    else [])"
    by (simp add: filter_eq_distinct [OF distinct_first_seen] set_first_seen del: set_map)
  finally have "concat (map columns (filter (\<lambda>t. tableName t = n) (formatToSqlTable rows))) =
                  map sqlColumn_of (filter (\<lambda>r. table_name r = n) rows)"
    using none by (simp add: formatToSqlTable_fold_spec del: set_map)
  then show ?thesis
    by (simp add: sqlColumn_of_def o_def)
qed

text \<open>
  C8 on rows with \<open>YES\<close>, \<open>NO\<close>, \<open>yes\<close> and an absent \<open>is_nullable\<close>: only
  the first column is nullable.
\<close>

theorem C8_nullable_iff_YES_witness:
  "map isNullable (concat (map columns (filter (\<lambda>t. tableName t = ''a'')
     (formatToSqlTable
        [\<lparr>table_name = ''a'', column_name = ''w'', data_type = None, is_nullable = Some ''YES''\<rparr>,
         \<lparr>table_name = ''a'', column_name = ''x'', data_type = None, is_nullable = Some ''NO''\<rparr>,
         \<lparr>table_name = ''a'', column_name = ''y'', data_type = None, is_nullable = Some ''yes''\<rparr>,
         \<lparr>table_name = ''a'', column_name = ''z'', data_type = None, is_nullable = None\<rparr>])))) =
   [Some True, Some False, Some False, Some False]"
  using C8_nullable_iff_YES [of _ "''a''"
        "[\<lparr>table_name = ''a'', column_name = ''w'', data_type = None, is_nullable = Some ''YES''\<rparr>,
         \<lparr>table_name = ''a'', column_name = ''x'', data_type = None, is_nullable = Some ''NO''\<rparr>,
         \<lparr>table_name = ''a'', column_name = ''y'', data_type = None, is_nullable = Some ''yes''\<rparr>,
         \<lparr>table_name = ''a'', column_name = ''z'', data_type = None, is_nullable = None\<rparr>]"]
  by simp

subsection \<open>C9\<close>

text \<open>
  Claim C9. When the client answers the command with the rows \<open>R\<close>, then whatever
  function the runtime's \<open>JSON.stringify\<close> is: \<open>run\<close> in mode \<open>all\<close> (given or
  by default) returns that function's text for the whole array \<open>R\<close>, and in mode
  \<open>one\<close> it returns that function's text for the first row of \<open>R\<close> when there is
  one and the empty string, without a call of the serializer, when there is none. The
  command is the one query made.
\<close>

theorem C9_run_serializes:
  assumes "athenaDataSource this command (remote w) = (Inr R, s')"
  shows "run JSON_stringify this command (Some FetchAll) w =
           (Inr (JSON_stringify (JRows R)), w\<lparr>remote := s', issued := issued w @ [command]\<rparr>)
         \<and> run JSON_stringify this command None w =
           run JSON_stringify this command (Some FetchAll) w
         \<and> run JSON_stringify this command (Some FetchOne) w =
           (Inr (case R of [] \<Rightarrow> '''' | r # rest \<Rightarrow> JSON_stringify (JRow r)),
            w\<lparr>remote := s', issued := issued w @ [command]\<rparr>)"
  using assms by (cases R) (simp_all add: run_def query_def)

text \<open>
  C9 on the result with the single row \<open>{a: 1}\<close>, in both modes, and on the empty
  result in mode \<open>one\<close>. The serializer of the example is given by its text at the
  row \<open>{a: 1}\<close> and at the array holding that row, as \<open>JSON.stringify\<close> prints
  them; \<open>CHR 0x22\<close> is the double quote.
\<close>

theorem C9_run_serializes_witness:
  "run (\<lambda>j. if j = JRow [(''a'', JNum 1)] then ''{'' @ [CHR 0x22] @ ''a'' @ [CHR 0x22] @ '':1}''
             else if j = JRows [[(''a'', JNum 1)]]
               then ''[{'' @ [CHR 0x22] @ ''a'' @ [CHR 0x22] @ '':1}]''
             else ''[]'')
       \<lparr>athenaDataSource = (\<lambda>sql (s::unit). (Inr [[(''a'', JNum 1)]], s)),
        allTables = [], includesTables = [], ignoreTables = [],
        sampleRowsInTableInfo = 3, customDescription = None\<rparr>
       ''SELECT 1'' (Some FetchOne) \<lparr>remote = (), issued = [], console = []\<rparr> =
     (Inr (''{'' @ [CHR 0x22] @ ''a'' @ [CHR 0x22] @ '':1}''),
      \<lparr>remote = (), issued = [''SELECT 1''], console = []\<rparr>)
   \<and> run (\<lambda>j. if j = JRow [(''a'', JNum 1)] then ''{'' @ [CHR 0x22] @ ''a'' @ [CHR 0x22] @ '':1}''
             else if j = JRows [[(''a'', JNum 1)]]
               then ''[{'' @ [CHR 0x22] @ ''a'' @ [CHR 0x22] @ '':1}]''
             else ''[]'')
       \<lparr>athenaDataSource = (\<lambda>sql (s::unit). (Inr [[(''a'', JNum 1)]], s)),
        allTables = [], includesTables = [], ignoreTables = [],
        sampleRowsInTableInfo = 3, customDescription = None\<rparr>
       ''SELECT 1'' (Some FetchAll) \<lparr>remote = (), issued = [], console = []\<rparr> =
     (Inr (''[{'' @ [CHR 0x22] @ ''a'' @ [CHR 0x22] @ '':1}]''),
      \<lparr>remote = (), issued = [''SELECT 1''], console = []\<rparr>)
   \<and> run (\<lambda>j. if j = JRow [(''a'', JNum 1)] then ''{'' @ [CHR 0x22] @ ''a'' @ [CHR 0x22] @ '':1}''
             else if j = JRows [[(''a'', JNum 1)]]
               then ''[{'' @ [CHR 0x22] @ ''a'' @ [CHR 0x22] @ '':1}]''
             else ''[]'')
       \<lparr>athenaDataSource = (\<lambda>sql (s::unit). (Inr [], s)),
        allTables = [], includesTables = [], ignoreTables = [],
        sampleRowsInTableInfo = 3, customDescription = None\<rparr>
       ''SELECT 1'' (Some FetchOne) \<lparr>remote = (), issued = [], console = []\<rparr> =
     (Inr '''', \<lparr>remote = (), issued = [''SELECT 1''], console = []\<rparr>)"
  using
    C9_run_serializes [of
      "\<lparr>athenaDataSource = (\<lambda>sql (s::unit). (Inr [[(''a'', JNum 1)]], s)),
        allTables = [], includesTables = [], ignoreTables = [],
        sampleRowsInTableInfo = 3, customDescription = None\<rparr>"
      "''SELECT 1''" "\<lparr>remote = (), issued = [], console = []\<rparr>" "[[(''a'', JNum 1)]]" "()"
      "\<lambda>j. if j = JRow [(''a'', JNum 1)] then ''{'' @ [CHR 0x22] @ ''a'' @ [CHR 0x22] @ '':1}''
             else if j = JRows [[(''a'', JNum 1)]]
               then ''[{'' @ [CHR 0x22] @ ''a'' @ [CHR 0x22] @ '':1}]''
             else ''[]''"]
    C9_run_serializes [of
      "\<lparr>athenaDataSource = (\<lambda>sql (s::unit). (Inr [], s)),
        allTables = [], includesTables = [], ignoreTables = [],
        sampleRowsInTableInfo = 3, customDescription = None\<rparr>"
      "''SELECT 1''" "\<lparr>remote = (), issued = [], console = []\<rparr>" "[]" "()"
      "\<lambda>j. if j = JRow [(''a'', JNum 1)] then ''{'' @ [CHR 0x22] @ ''a'' @ [CHR 0x22] @ '':1}''
             else if j = JRows [[(''a'', JNum 1)]]
               then ''[{'' @ [CHR 0x22] @ ''a'' @ [CHR 0x22] @ '':1}]''
             else ''[]''"]
  by simp

subsection \<open>C10\<close>

text \<open>
  Claim C10. An empty target list selects, and so returns, the same as no target list:
  the configured include and ignore lists apply and no target name is checked.
\<close>

theorem C10_empty_target_list:
  "getTableInfo_selectedTables this (Some []) = getTableInfo_selectedTables this None
   \<and> getTableInfo this (Some []) w = getTableInfo this None w"
  by (simp add: getTableInfo_def getTableInfo_selectedTables_def)

text \<open>
  C10 with \<open>b\<close> on the include list: the empty target list selects \<open>b\<close>.
\<close>

theorem C10_empty_target_list_witness:
  "getTableInfo_selectedTables
     \<lparr>athenaDataSource = (\<lambda>sql (s::unit). (Inr [], s)),
      allTables = [\<lparr>tableName = ''a'', columns = []\<rparr>, \<lparr>tableName = ''b'', columns = []\<rparr>],
      includesTables = [''b''], ignoreTables = [],
      sampleRowsInTableInfo = 3, customDescription = None\<rparr> (Some []) =
   Inr [\<lparr>tableName = ''b'', columns = []\<rparr>]"
  using C10_empty_target_list [of
     "\<lparr>athenaDataSource = (\<lambda>sql (s::unit). (Inr [], s)),
      allTables = [\<lparr>tableName = ''a'', columns = []\<rparr>, \<lparr>tableName = ''b'', columns = []\<rparr>],
      includesTables = [''b''], ignoreTables = [],
      sampleRowsInTableInfo = 3, customDescription = None\<rparr>"]
  by (simp add: getTableInfo_selectedTables_def)

end
